theory Spec2Isabelle
  imports Complex_Main "HOL-Library.AList"
begin

section \<open>JSON values\<close>

text \<open>
  Frames are newline-delimited JSON. A JSON value is a tree; \<open>JSON.stringify\<close> of the
  platform is written out for it (numbers are integers here; object members keep their
  insertion order).
\<close>

datatype json =
    JNull
  | JBool bool
  | JNum int
  | JStr string
  | JArr "json list"
  | JObj "(string \<times> json) list"

text \<open>Decimal and hexadecimal digits, most significant first.\<close>

definition digit_char :: "nat \<Rightarrow> char" where
  "digit_char d = ''0123456789abcdef'' ! d"

fun digits_onto :: "nat \<Rightarrow> string \<Rightarrow> string" where
  "digits_onto n acc =
     (if 10 \<le> n then digits_onto (n div 10) (digit_char (n mod 10) # acc)
      else digit_char n # acc)"

definition nat_string :: "nat \<Rightarrow> string" where
  "nat_string n = digits_onto n []"

definition number_string :: "int \<Rightarrow> string" where
  "number_string i = (if 0 \<le> i then nat_string (nat i) else CHR ''-'' # nat_string (nat (- i)))"

definition escape_char :: "char \<Rightarrow> string" where
  "escape_char c =
     (if c = CHR 0x22 then [CHR 0x5C, CHR 0x22]
      else if c = CHR 0x5C then [CHR 0x5C, CHR 0x5C]
      else if c = CHR 0x08 then [CHR 0x5C, CHR ''b'']
      else if c = CHR 0x0C then [CHR 0x5C, CHR ''f'']
      else if c = CHR 0x0A then [CHR 0x5C, CHR ''n'']
      else if c = CHR 0x0D then [CHR 0x5C, CHR ''r'']
      else if c = CHR 0x09 then [CHR 0x5C, CHR ''t'']
      else if (of_char c :: nat) < 32
        then [CHR 0x5C, CHR ''u'', CHR ''0'', CHR ''0'',
              digit_char ((of_char c :: nat) div 16), digit_char ((of_char c :: nat) mod 16)]
      else [c])"

definition quote :: "string \<Rightarrow> string" where
  "quote s = [CHR 0x22] @ concat (map escape_char s) @ [CHR 0x22]"

fun join :: "string \<Rightarrow> string list \<Rightarrow> string" where
  "join sep [] = []"
| "join sep [x] = x"
| "join sep (x # y # ys) = x @ sep @ join sep (y # ys)"

fun JSON_stringify :: "json \<Rightarrow> string" where
  "JSON_stringify JNull = ''null''"
| "JSON_stringify (JBool b) = (if b then ''true'' else ''false'')"
| "JSON_stringify (JNum n) = number_string n"
| "JSON_stringify (JStr s) = quote s"
| "JSON_stringify (JArr xs) = ''['' @ join '','' (map JSON_stringify xs) @ '']''"
| "JSON_stringify (JObj kvs) =
     ''{'' @ join '','' (map (\<lambda>(k, v). quote k @ '':'' @ JSON_stringify v) kvs) @ ''}''"

section \<open>Protocol types (session/types.ts)\<close>

datatype ContentBlock =
    TextBlock string
  | ToolUse string string json
  | ToolResult string "string + ContentBlock list" "bool option"
  | Thinking string "int option"

record Usage =
  input_tokens :: int
  output_tokens :: int
  cache_creation_input_tokens :: "int option"
  cache_read_input_tokens :: "int option"

record CLISystemInitMessage =
  init_session_id :: string
  init_model :: string
  init_cwd :: string
  init_tools :: "string list"
  init_permissionMode :: string

record AssistantBody =
  msg_id :: string
  msg_model :: string
  msg_content :: "ContentBlock list"
  msg_stop_reason :: "string option"
  msg_usage :: Usage

record CLIAssistantMessage =
  message :: AssistantBody
  asst_parent_tool_use_id :: "string option"
  asst_session_id :: string

record CLIResultMessage =
  res_subtype :: string
  is_error :: bool
  res_result :: "string option"
  res_errors :: "string list option"
  duration_ms :: int
  duration_api_ms :: int
  num_turns :: int
  total_cost_usd :: real
  res_stop_reason :: "string option"
  res_usage :: Usage
  res_session_id :: string

record CLIStreamEventMessage =
  event :: json
  se_parent_tool_use_id :: "string option"
  se_session_id :: string

record ControlRequestBody =
  req_subtype :: string
  tool_name :: string
  req_input :: json
  tool_use_id :: string

record CLIControlRequestMessage =
  request_id :: string
  request :: ControlRequestBody

text \<open>
  \<open>CLIMessage\<close>: the union is discriminated by \<open>type\<close> (and \<open>subtype\<close> for
  \<open>system\<close>); \<open>msg_other\<close> carries any other type tag.
\<close>

datatype CLIMessage =
    msg_system_init CLISystemInitMessage
  | msg_system_other string
  | msg_assistant CLIAssistantMessage
  | msg_result CLIResultMessage
  | msg_stream_event CLIStreamEventMessage
  | msg_control_request CLIControlRequestMessage
  | msg_keep_alive
  | msg_other string

datatype PermissionMode = bypassPermissions | acceptEdits | default_mode

datatype SessionState = Starting | Connected | Ready | Busy | Exited

record SessionInfo =
  sessionId :: string
  cliSessionId :: "string option"
  model :: string
  permissionMode :: PermissionMode
  state :: SessionState
  pid :: "nat option"
  cwd :: string
  createdAt :: int
  lastUsedAt :: int

section \<open>The platform objects the bridge holds\<close>

text \<open>
  A \<open>WebSocket\<close> of the \<open>ws\<close> package, seen from the server: its ready state, the
  data written to it (what the CLI process receives, in order), the code given to
  \<open>close\<close>, and the closure \<open>(sessionId, managed)\<close> of the handlers registered on it.
\<close>

datatype ReadyState = CONNECTING | OPEN | CLOSING | CLOSED

record WebSocket =
  readyState :: ReadyState
  written :: "string list"
  closeCode :: "nat option"
  handlers :: "(string \<times> nat) option"

datatype Signal = SIGTERM | SIGKILL

text \<open>
  A \<open>ChildProcess\<close>: its arguments, whether it still runs, the signals delivered to it,
  and the closure \<open>(sessionId, managed)\<close> of its exit and error handlers.
\<close>

record ChildProcess =
  spawnargs :: "string list"
  spawn_cwd :: string
  spawn_api_key :: "string option"
  running :: bool
  signals :: "Signal list"
  proc_owner :: "string \<times> nat"

record ManagedSession =
  info :: SessionInfo
  cliSocket :: "nat option"
  process :: "nat option"
  pendingMessages :: "string list"
  readyResolved :: bool
  apiKey :: "string option"

datatype BridgeEvent =
    ev_ready string CLISystemInitMessage
  | ev_assistant string CLIAssistantMessage
  | ev_result string CLIResultMessage
  | ev_stream_event string CLIStreamEventMessage
  | ev_error string string
  | ev_exit string "int option"

text \<open>
  The bridge. \<open>sessions\<close> is the JS \<open>Map\<close> from session id to a \<open>ManagedSession\<close>
  object, in insertion order; the objects live in \<open>objects\<close> and are referred to by
  address, because the socket and process handlers keep the object they were registered
  for, whatever the map holds later. \<open>emitted\<close> is the log of \<open>emit\<close> calls.
\<close>

record CliBridge =
  wsPort :: nat
  sessions :: "(string \<times> nat) list"
  sessionTimeout :: int
  objects :: "nat \<Rightarrow> ManagedSession"
  next_object :: nat
  sockets :: "nat \<Rightarrow> WebSocket"
  next_socket :: nat
  procs :: "nat \<Rightarrow> ChildProcess"
  next_proc :: nat
  emitted :: "BridgeEvent list"

definition upd_object :: "nat \<Rightarrow> (ManagedSession \<Rightarrow> ManagedSession) \<Rightarrow> CliBridge \<Rightarrow> CliBridge" where
  "upd_object a f b = b\<lparr>objects := (objects b)(a := f (objects b a))\<rparr>"

definition upd_info :: "nat \<Rightarrow> (SessionInfo \<Rightarrow> SessionInfo) \<Rightarrow> CliBridge \<Rightarrow> CliBridge" where
  "upd_info a f b = upd_object a (\<lambda>m. m\<lparr>info := f (info m)\<rparr>) b"

definition emit :: "BridgeEvent \<Rightarrow> CliBridge \<Rightarrow> CliBridge" where
  "emit e b = b\<lparr>emitted := emitted b @ [e]\<rparr>"

text \<open>
  \<open>ws.send(data)\<close>: the data goes out when the socket is open and is dropped when it is
  closing or closed (a server-side socket is never connecting).
\<close>

definition ws_send :: "nat \<Rightarrow> string \<Rightarrow> CliBridge \<Rightarrow> CliBridge" where
  "ws_send ws data b =
     (if readyState (sockets b ws) = OPEN
      then b\<lparr>sockets := (sockets b)(ws := (sockets b ws)\<lparr>written := written (sockets b ws) @ [data]\<rparr>)\<rparr>
      else b)"

text \<open>\<open>ws.close(code)\<close>: starts the closing handshake unless it has started already.\<close>

definition ws_close :: "nat \<Rightarrow> nat option \<Rightarrow> CliBridge \<Rightarrow> CliBridge" where
  "ws_close ws code b =
     (if readyState (sockets b ws) = CLOSED \<or> readyState (sockets b ws) = CLOSING then b
      else b\<lparr>sockets := (sockets b)(ws := (sockets b ws)\<lparr>readyState := CLOSING, closeCode := code\<rparr>)\<rparr>)"

text \<open>\<open>process.kill(signal)\<close>: delivered while the process runs, nothing after it has exited.\<close>

definition proc_kill :: "nat \<Rightarrow> Signal \<Rightarrow> CliBridge \<Rightarrow> CliBridge" where
  "proc_kill p sig b =
     (if running (procs b p)
      then b\<lparr>procs := (procs b)(p := (procs b p)\<lparr>signals := signals (procs b p) @ [sig]\<rparr>)\<rparr>
      else b)"

section \<open>CliBridge (session/cli-bridge.ts)\<close>

subsection \<open>The constructor\<close>

text \<open>
  \<open>new CliBridge({wsPort, sessionTimeoutMs})\<close>: no session, no socket, no process yet.
  The stores hold a placeholder at every address not yet handed out.
\<close>

definition no_session :: ManagedSession where
  "no_session =
     \<lparr>info = \<lparr>sessionId = [], cliSessionId = None, model = [], permissionMode = default_mode,
              state = Exited, pid = None, cwd = [], createdAt = 0, lastUsedAt = 0\<rparr>,
      cliSocket = None, process = None, pendingMessages = [], readyResolved = False,
      apiKey = None\<rparr>"

definition no_socket :: WebSocket where
  "no_socket = \<lparr>readyState = CLOSED, written = [], closeCode = None, handlers = None\<rparr>"

definition no_process :: ChildProcess where
  "no_process =
     \<lparr>spawnargs = [], spawn_cwd = [], spawn_api_key = None, running = False, signals = [],
      proc_owner = ([], 0)\<rparr>"

definition CliBridge_new :: "nat \<Rightarrow> int option \<Rightarrow> CliBridge" where
  "CliBridge_new port sessionTimeoutMs =
     \<lparr>wsPort = port, sessions = [],
      sessionTimeout = (case sessionTimeoutMs of Some t \<Rightarrow> t | None \<Rightarrow> 30 * 60 * 1000),
      objects = (\<lambda>a. no_session), next_object = 0,
      sockets = (\<lambda>ws. no_socket), next_socket = 0,
      procs = (\<lambda>p. no_process), next_proc = 0,
      emitted = []\<rparr>"

subsection \<open>sendToCLI\<close>

definition sendToCLI :: "nat \<Rightarrow> string \<Rightarrow> CliBridge \<Rightarrow> CliBridge" where
  "sendToCLI a ndjson b =
     (case cliSocket (objects b a) of
        None \<Rightarrow> upd_object a (\<lambda>m. m\<lparr>pendingMessages := pendingMessages m @ [ndjson]\<rparr>) b
      | Some ws \<Rightarrow>
          if readyState (sockets b ws) \<noteq> OPEN
          then upd_object a (\<lambda>m. m\<lparr>pendingMessages := pendingMessages m @ [ndjson]\<rparr>) b
          else ws_send ws (ndjson @ ''\<newline>'') b)"

subsection \<open>handleConnection\<close>

text \<open>The pattern \<^verbatim>\<open>/^\/ws\/cli\/([a-f0-9-]+)$/\<close>: the fixed prefix, then one or more
  characters of the class up to the end of the url; the result is the captured group.\<close>

definition in_class :: "char \<Rightarrow> bool" where
  "in_class c = (c \<in> set ''abcdef0123456789-'')"

definition match_cli_path :: "string \<Rightarrow> string option" where
  "match_cli_path url =
     (if take 8 url = ''/ws/cli/'' \<and> drop 8 url \<noteq> [] \<and> list_all in_class (drop 8 url)
      then Some (drop 8 url) else None)"

definition flush_pending :: "nat \<Rightarrow> string list \<Rightarrow> CliBridge \<Rightarrow> CliBridge" where
  "flush_pending ws pending b = fold (\<lambda>ndjson. ws_send ws (ndjson @ ''\<newline>'')) pending b"

definition handleConnection :: "nat \<Rightarrow> string \<Rightarrow> CliBridge \<Rightarrow> CliBridge" where
  "handleConnection ws url b =
     (case match_cli_path url of
        None \<Rightarrow> ws_close ws (Some 4000) b
      | Some sid \<Rightarrow>
          (case map_of (sessions b) sid of
             None \<Rightarrow> ws_close ws (Some 4001) b
           | Some a \<Rightarrow>
               let b1 = upd_object a (\<lambda>m. m\<lparr>cliSocket := Some ws\<rparr>) b;
                   b2 = upd_info a (\<lambda>i. i\<lparr>state := Connected\<rparr>) b1;
                   b3 = flush_pending ws (pendingMessages (objects b2 a)) b2;
                   b4 = upd_object a (\<lambda>m. m\<lparr>pendingMessages := []\<rparr>) b3
               in b4\<lparr>sockets := (sockets b4)(ws := (sockets b4 ws)\<lparr>handlers := Some (sid, a)\<rparr>)\<rparr>))"

text \<open>The server accepts a connection: a new open socket, handed to \<open>handleConnection\<close>.\<close>

definition new_socket :: WebSocket where
  "new_socket = \<lparr>readyState = OPEN, written = [], closeCode = None, handlers = None\<rparr>"

definition on_connection :: "string \<Rightarrow> CliBridge \<Rightarrow> CliBridge" where
  "on_connection url b =
     (let ws = next_socket b
      in handleConnection ws url
           (b\<lparr>sockets := (sockets b)(ws := new_socket), next_socket := Suc ws\<rparr>))"

subsection \<open>routeMessage and autoApprovePermission\<close>

definition control_response :: "CLIControlRequestMessage \<Rightarrow> json" where
  "control_response msg =
     JObj [(''type'', JStr ''control_response''),
           (''response'',
            JObj [(''subtype'', JStr ''success''),
                  (''request_id'', JStr (request_id msg)),
                  (''response'',
                   JObj [(''behavior'', JStr ''allow''),
                         (''updatedInput'', req_input (request msg))])])]"

definition autoApprovePermission :: "nat \<Rightarrow> CLIControlRequestMessage \<Rightarrow> CliBridge \<Rightarrow> CliBridge" where
  "autoApprovePermission a msg b = sendToCLI a (JSON_stringify (control_response msg)) b"

text \<open>\<open>now\<close> is the value of \<open>Date.now()\<close> when the frame is routed.\<close>

fun routeMessage :: "string \<Rightarrow> nat \<Rightarrow> CLIMessage \<Rightarrow> int \<Rightarrow> CliBridge \<Rightarrow> CliBridge" where
  "routeMessage sid a (msg_system_init initMsg) now b =
     (let b1 = upd_info a (\<lambda>i. i\<lparr>cliSessionId := Some (init_session_id initMsg)\<rparr>) b;
          b2 = upd_info a (\<lambda>i. i\<lparr>state := Ready\<rparr>) b1;
          b3 = emit (ev_ready sid initMsg) b2
      in upd_object a (\<lambda>m. m\<lparr>readyResolved := True\<rparr>) b3)"
| "routeMessage sid a (msg_system_other subtype) now b = b"
| "routeMessage sid a (msg_assistant msg) now b = emit (ev_assistant sid msg) b"
| "routeMessage sid a (msg_result msg) now b =
     (let b1 = upd_info a (\<lambda>i. i\<lparr>state := Ready\<rparr>) b;
          b2 = upd_info a (\<lambda>i. i\<lparr>lastUsedAt := now\<rparr>) b1
      in emit (ev_result sid msg) b2)"
| "routeMessage sid a (msg_stream_event msg) now b = emit (ev_stream_event sid msg) b"
| "routeMessage sid a (msg_control_request ctrlMsg) now b =
     (if req_subtype (request ctrlMsg) = ''can_use_tool''
      then autoApprovePermission a ctrlMsg b else b)"
| "routeMessage sid a msg_keep_alive now b = b"
| "routeMessage sid a (msg_other ty) now b = b"

subsection \<open>spawnSession and spawnCLI\<close>

record SpawnOptions =
  opt_model :: "string option"
  opt_permissionMode :: "PermissionMode option"
  opt_cwd :: "string option"
  opt_sessionId :: "string option"
  opt_apiKey :: "string option"

text \<open>
  What the platform supplies to one call: the value of \<open>randomUUID()\<close>, of
  \<open>process.cwd()\<close>, and the pid of the started process (none when it could not start).
\<close>

record Env =
  random_uuid :: string
  process_cwd :: string
  spawn_pid :: "nat option"

definition permissionMode_string :: "PermissionMode \<Rightarrow> string" where
  "permissionMode_string m =
     (case m of bypassPermissions \<Rightarrow> ''bypassPermissions''
              | acceptEdits \<Rightarrow> ''acceptEdits''
              | default_mode \<Rightarrow> ''default'')"

definition spawnCLI :: "string \<Rightarrow> nat \<Rightarrow> Env \<Rightarrow> CliBridge \<Rightarrow> CliBridge" where
  "spawnCLI sid a env b =
     (let managed = objects b a;
          sdkUrl = ''ws://localhost:'' @ nat_string (wsPort b) @ ''/ws/cli/'' @ sid;
          args = [''--sdk-url'', sdkUrl, ''--print'', ''--output-format'', ''stream-json'',
                  ''--input-format'', ''stream-json'', ''--verbose'']
                 @ (if model (info managed) \<noteq> [] then [''--model'', model (info managed)] else [])
                 @ [''--permission-mode'', permissionMode_string (permissionMode (info managed))]
                 @ [''-p'', []];
          p = next_proc b;
          proc = \<lparr>spawnargs = args, spawn_cwd = cwd (info managed),
                  spawn_api_key = (case apiKey managed of None \<Rightarrow> None
                                   | Some k \<Rightarrow> if k \<noteq> [] then Some k else None),
                  running = (spawn_pid env \<noteq> None), signals = [], proc_owner = (sid, a)\<rparr>;
          b1 = b\<lparr>procs := (procs b)(p := proc), next_proc := Suc p\<rparr>;
          b2 = upd_object a (\<lambda>m. m\<lparr>process := Some p\<rparr>) b1
      in upd_info a (\<lambda>i. i\<lparr>pid := spawn_pid env\<rparr>) b2)"

definition spawnSession :: "SpawnOptions \<Rightarrow> Env \<Rightarrow> int \<Rightarrow> CliBridge \<Rightarrow> string \<times> CliBridge" where
  "spawnSession options env now b =
     (let sid = (case opt_sessionId options of Some s \<Rightarrow> s | None \<Rightarrow> random_uuid env);
          cwd0 = (case opt_cwd options of Some d \<Rightarrow> d | None \<Rightarrow> process_cwd env);
          a = next_object b;
          managed =
            \<lparr>info = \<lparr>sessionId = sid, cliSessionId = None,
                     model = (case opt_model options of Some m \<Rightarrow> m
                              | None \<Rightarrow> ''claude-sonnet-4-5-20250929''),
                     permissionMode = (case opt_permissionMode options of Some m \<Rightarrow> m
                                       | None \<Rightarrow> acceptEdits),
                     state = Starting, pid = None, cwd = cwd0,
                     createdAt = now, lastUsedAt = now\<rparr>,
             cliSocket = None, process = None, pendingMessages = [],
             readyResolved = False, apiKey = opt_apiKey options\<rparr>;
          b1 = b\<lparr>objects := (objects b)(a := managed), next_object := Suc a,
                 sessions := AList.update sid a (sessions b)\<rparr>
      in (sid, spawnCLI sid a env b1))"

subsection \<open>sendUserMessage, sendInterrupt, getSession, hasSession\<close>

definition user_message :: "json \<Rightarrow> string \<Rightarrow> json" where
  "user_message content session_id =
     JObj [(''type'', JStr ''user''),
           (''message'', JObj [(''role'', JStr ''user''), (''content'', content)]),
           (''parent_tool_use_id'', JNull),
           (''session_id'', JStr session_id)]"

text \<open>An unknown session is the thrown \<open>Error\<close>, with its message.\<close>

definition sendUserMessage ::
  "string \<Rightarrow> json \<Rightarrow> string option \<Rightarrow> int \<Rightarrow> CliBridge \<Rightarrow> string + CliBridge" where
  "sendUserMessage sid content cliSid now b =
     (case map_of (sessions b) sid of
        None \<Rightarrow> Inl (''Session '' @ sid @ '' not found'')
      | Some a \<Rightarrow>
          let b1 = upd_info a (\<lambda>i. i\<lparr>state := Busy\<rparr>) b;
              b2 = upd_info a (\<lambda>i. i\<lparr>lastUsedAt := now\<rparr>) b1;
              session_id = (case cliSid of Some s \<Rightarrow> s
                            | None \<Rightarrow> (case cliSessionId (info (objects b2 a)) of
                                         Some s \<Rightarrow> s | None \<Rightarrow> []))
          in Inr (sendToCLI a (JSON_stringify (user_message content session_id)) b2))"

definition sendInterrupt :: "string \<Rightarrow> string \<Rightarrow> CliBridge \<Rightarrow> CliBridge" where
  "sendInterrupt sid uuid b =
     (case map_of (sessions b) sid of
        None \<Rightarrow> b
      | Some a \<Rightarrow>
          sendToCLI a
            (JSON_stringify (JObj [(''type'', JStr ''control_request''),
                                   (''request_id'', JStr uuid),
                                   (''request'', JObj [(''subtype'', JStr ''interrupt'')])])) b)"

definition getSession :: "string \<Rightarrow> CliBridge \<Rightarrow> SessionInfo option" where
  "getSession sid b = map_option (\<lambda>a. info (objects b a)) (map_of (sessions b) sid)"

definition hasSession :: "string \<Rightarrow> CliBridge \<Rightarrow> bool" where
  "hasSession sid b = (map_of (sessions b) sid \<noteq> None)"

subsection \<open>The handlers registered on sockets and processes\<close>

text \<open>
  A \<open>message\<close> callback: the chunk is split into lines, each non-blank line parsed and
  routed; a line that does not parse (\<open>None\<close>) is dropped.
\<close>

definition route_line ::
  "string \<Rightarrow> nat \<Rightarrow> int \<Rightarrow> CLIMessage option \<Rightarrow> CliBridge \<Rightarrow> CliBridge" where
  "route_line sid a now l b = (case l of None \<Rightarrow> b | Some msg \<Rightarrow> routeMessage sid a msg now b)"

definition on_message :: "nat \<Rightarrow> CLIMessage option list \<Rightarrow> int \<Rightarrow> CliBridge \<Rightarrow> CliBridge" where
  "on_message ws lines now b =
     (case handlers (sockets b ws) of
        None \<Rightarrow> b
      | Some (sid, a) \<Rightarrow> fold (route_line sid a now) lines b)"

definition on_close :: "nat \<Rightarrow> CliBridge \<Rightarrow> CliBridge" where
  "on_close ws b =
     (let b1 = b\<lparr>sockets := (sockets b)(ws := (sockets b ws)\<lparr>readyState := CLOSED\<rparr>)\<rparr>
      in case handlers (sockets b ws) of
           None \<Rightarrow> b1
         | Some (sid, a) \<Rightarrow> upd_object a (\<lambda>m. m\<lparr>cliSocket := None\<rparr>) b1)"

definition on_exit :: "nat \<Rightarrow> int option \<Rightarrow> CliBridge \<Rightarrow> CliBridge" where
  "on_exit p code b =
     (let (sid, a) = proc_owner (procs b p);
          b1 = b\<lparr>procs := (procs b)(p := (procs b p)\<lparr>running := False\<rparr>)\<rparr>;
          b2 = upd_info a (\<lambda>i. i\<lparr>state := Exited\<rparr>) b1
      in emit (ev_exit sid code) b2)"

definition on_error :: "nat \<Rightarrow> string \<Rightarrow> CliBridge \<Rightarrow> CliBridge" where
  "on_error p err b = emit (ev_error (fst (proc_owner (procs b p))) err) b"

subsection \<open>killSession\<close>

text \<open>
  \<open>killSession\<close> is asynchronous. Its first part runs to the \<open>await\<close>: an unknown
  session returns at once; with a process, SIGTERM is sent and the call waits for the
  promise that the 5000 ms timer or the process's exit resolves (\<open>KillWait\<close>: the object,
  the process listened to, the timer's deadline); without one it goes on to the end.
  \<open>kill_timer\<close> is the timer's callback, \<open>killSession_finish\<close> the part after the
  \<open>await\<close>.
\<close>

datatype KillWait = KillWait nat nat int

definition killSession_finish :: "string \<Rightarrow> nat \<Rightarrow> CliBridge \<Rightarrow> CliBridge" where
  "killSession_finish sid a b =
     (let b1 = (case cliSocket (objects b a) of None \<Rightarrow> b | Some ws \<Rightarrow> ws_close ws None b)
      in b1\<lparr>sessions := AList.delete sid (sessions b1)\<rparr>)"

definition killSession_start :: "string \<Rightarrow> int \<Rightarrow> CliBridge \<Rightarrow> CliBridge \<times> KillWait option" where
  "killSession_start sid now b =
     (case map_of (sessions b) sid of
        None \<Rightarrow> (b, None)
      | Some a \<Rightarrow>
          (case process (objects b a) of
             None \<Rightarrow> (killSession_finish sid a b, None)
           | Some p \<Rightarrow> (proc_kill p SIGTERM b, Some (KillWait a p (now + 5000)))))"

definition kill_timer :: "nat \<Rightarrow> CliBridge \<Rightarrow> CliBridge" where
  "kill_timer a b = (case process (objects b a) of None \<Rightarrow> b | Some p \<Rightarrow> proc_kill p SIGKILL b)"

subsection \<open>reapIdleSessions\<close>

text \<open>
  One pass over the map. \<open>killSession(id)\<close> is called without \<open>await\<close>: its first part
  runs inside the pass, the rest later; the pass returns the calls it made.
\<close>

definition reap_one ::
  "int \<Rightarrow> string \<times> nat \<Rightarrow> CliBridge \<times> (string \<times> KillWait option) list
     \<Rightarrow> CliBridge \<times> (string \<times> KillWait option) list" where
  "reap_one now entry acc =
     (let (id, a) = entry; (b, kills) = acc
      in if state (info (objects b a)) = Exited
         then (b\<lparr>sessions := AList.delete id (sessions b)\<rparr>, kills)
         else if now - lastUsedAt (info (objects b a)) > sessionTimeout b
         then (let (b', w) = killSession_start id now b in (b', kills @ [(id, w)]))
         else (b, kills))"

definition reapIdleSessions :: "int \<Rightarrow> CliBridge \<Rightarrow> CliBridge \<times> (string \<times> KillWait option) list" where
  "reapIdleSessions now b = fold (reap_one now) (sessions b) (b, [])"

section \<open>Events\<close>

text \<open>
  Everything that runs in the single thread is one of these: a callback of the platform
  or a synchronous call from the HTTP layer, each at a time \<open>Date.now()\<close>.
\<close>

datatype Event =
    Connection string
  | WsMessage nat "CLIMessage option list"
  | WsClose nat
  | ProcExit nat "int option"
  | ProcError nat string
  | SpawnSession SpawnOptions Env
  | SendUserMessage string json "string option"
  | SendInterrupt string string
  | KillStart string
  | KillTimer nat
  | KillFinish string nat
  | ReapIdle

fun step :: "int \<Rightarrow> Event \<Rightarrow> CliBridge \<Rightarrow> CliBridge" where
  "step now (Connection url) b = on_connection url b"
| "step now (WsMessage ws lines) b = on_message ws lines now b"
| "step now (WsClose ws) b = on_close ws b"
| "step now (ProcExit p code) b = on_exit p code b"
| "step now (ProcError p err) b = on_error p err b"
| "step now (SpawnSession options env) b = snd (spawnSession options env now b)"
| "step now (SendUserMessage sid content cliSid) b =
     (case sendUserMessage sid content cliSid now b of Inl err \<Rightarrow> b | Inr b' \<Rightarrow> b')"
| "step now (SendInterrupt sid uuid) b = sendInterrupt sid uuid b"
| "step now (KillStart sid) b = fst (killSession_start sid now b)"
| "step now (KillTimer a) b = kill_timer a b"
| "step now (KillFinish sid a) b = killSession_finish sid a b"
| "step now ReapIdle b = fst (reapIdleSessions now b)"

definition run :: "(int \<times> Event) list \<Rightarrow> CliBridge \<Rightarrow> CliBridge" where
  "run evs b = fold (\<lambda>(t, e). step t e) evs b"

section \<open>Asynchronous calls\<close>




text \<open>
  \<open>Promise.race([readyPromise, timeout])\<close> of \<open>waitForReady\<close>: fulfilled (\<open>True\<close>) once
  \<open>readyResolve\<close> has been called on the object, rejected (\<open>False\<close>) by the timer.
\<close>

fun await_ready ::
  "nat \<Rightarrow> int \<Rightarrow> int \<Rightarrow> (int \<times> Event) list \<Rightarrow> CliBridge
     \<Rightarrow> bool \<times> int \<times> CliBridge \<times> (int \<times> Event) list" where
  "await_ready a deadline now [] b =
     (if readyResolved (objects b a) then (True, now, b, []) else (False, deadline, b, []))"
| "await_ready a deadline now ((t, e) # evs) b =
     (if readyResolved (objects b a) then (True, now, b, (t, e) # evs)
      else if deadline \<le> t then (False, deadline, b, (t, e) # evs)
      else await_ready a deadline t evs (step t e b))"

definition waitForReady ::
  "string \<Rightarrow> int \<Rightarrow> int \<Rightarrow> (int \<times> Event) list \<Rightarrow> CliBridge
     \<Rightarrow> (string + unit) \<times> int \<times> CliBridge \<times> (int \<times> Event) list" where
  "waitForReady sid timeoutMs now evs b =
     (case map_of (sessions b) sid of
        None \<Rightarrow> (Inl (''Session '' @ sid @ '' not found''), now, b, evs)
      | Some a \<Rightarrow>
          if state (info (objects b a)) = Ready then (Inr (), now, b, evs)
          else (let (ok, t, b', rest) = await_ready a (now + timeoutMs) now evs b
                in (if ok then Inr () else Inl ''Timeout waiting for CLI to initialize'',
                    t, b', rest)))"

section \<open>SessionPool (session/pool.ts)\<close>

record GetOrCreateResult =
  res_sessionId :: string
  res_info :: "SessionInfo option"
  isNew :: bool

text \<open>
  \<open>getOrCreate\<close>: the result is the thrown error's message or the returned object.
  \<open>options.sessionId && ...\<close> is false for an absent id and for the empty string.
\<close>

definition getOrCreate ::
  "SpawnOptions \<Rightarrow> Env \<Rightarrow> int \<Rightarrow> (int \<times> Event) list \<Rightarrow> CliBridge
     \<Rightarrow> (string + GetOrCreateResult) \<times> int \<times> CliBridge \<times> (int \<times> Event) list" where
  "getOrCreate options env now evs b =
     (let existing =
            (case opt_sessionId options of
               None \<Rightarrow> None
             | Some sid \<Rightarrow>
                 if sid \<noteq> [] \<and> hasSession sid b
                 then (case getSession sid b of
                         None \<Rightarrow> None
                       | Some i \<Rightarrow> if state i \<noteq> Exited then Some (sid, i) else None)
                 else None)
      in case existing of
           Some (sid, i) \<Rightarrow>
             (Inr \<lparr>res_sessionId = sid, res_info = Some i, isNew = False\<rparr>, now, b, evs)
         | None \<Rightarrow>
             (let (sid, b1) = spawnSession options env now b;
                  (w, t, b2, rest) = waitForReady sid 30000 now evs b1
              in case w of
                   Inl err \<Rightarrow> (Inl err, t, b2, rest)
                 | Inr u \<Rightarrow>
                     (Inr \<lparr>res_sessionId = sid, res_info = getSession sid b2, isNew = True\<rparr>,
                      t, b2, rest)))"

section \<open>Response assembly (translators/response.ts, routes/messages.ts)\<close>

record AnthropicResponse =
  resp_id :: string
  resp_type :: string
  role :: string
  content :: "ContentBlock list"
  resp_model :: string
  stop_reason :: "string option"
  stop_sequence :: "string option"
  usage :: Usage

text \<open>A string is falsy when it is null or empty.\<close>

definition mapStopReason :: "string option \<Rightarrow> string option" where
  "mapStopReason reason =
     (case reason of
        None \<Rightarrow> None
      | Some r \<Rightarrow>
          if r = [] then None
          else if r = ''end_turn'' then Some ''end_turn''
          else if r = ''max_tokens'' then Some ''max_tokens''
          else if r = ''stop_sequence'' then Some ''stop_sequence''
          else if r = ''tool_use'' then Some ''tool_use''
          else Some ''end_turn'')"

definition buildAnthropicResponse ::
  "string \<Rightarrow> CLIAssistantMessage \<Rightarrow> CLIResultMessage \<Rightarrow> AnthropicResponse" where
  "buildAnthropicResponse uuid assistant result =
     \<lparr>resp_id = (if msg_id (message assistant) \<noteq> [] then msg_id (message assistant)
                 else ''msg_'' @ take 20 (filter (\<lambda>c. c \<noteq> CHR ''-'') uuid)),
      resp_type = ''message'',
      role = ''assistant'',
      content = msg_content (message assistant),
      resp_model = msg_model (message assistant),
      stop_reason =
        mapStopReason
          (case res_stop_reason result of
             None \<Rightarrow> msg_stop_reason (message assistant)
           | Some r \<Rightarrow> if r \<noteq> [] then Some r else msg_stop_reason (message assistant)),
      stop_sequence = None,
      usage = \<lparr>input_tokens = input_tokens (res_usage result),
                output_tokens = output_tokens (res_usage result),
                cache_creation_input_tokens = cache_creation_input_tokens (res_usage result),
                cache_read_input_tokens = cache_read_input_tokens (res_usage result)\<rparr>\<rparr>"

datatype Body = ErrorBody string string | MessageBody AnthropicResponse

record HttpResponse =
  status :: nat
  body :: Body
  headers :: "(string \<times> string) list"

text \<open>
  \<open>handleNonStreaming\<close>: the state its closures share (\<open>lastAssistant\<close>, whether the
  listeners are still registered, the value the promise resolved with), the listeners,
  and the timer. What reaches the call is a notification of the bridge or the timer.
\<close>

record Assembler =
  lastAssistant :: "CLIAssistantMessage option"
  listening :: bool
  resolved :: "HttpResponse option"

datatype TurnEvent = Notify BridgeEvent | TurnTimeout

definition cleanup :: "Assembler \<Rightarrow> Assembler" where
  "cleanup s = s\<lparr>listening := False\<rparr>"

definition resolve :: "HttpResponse \<Rightarrow> Assembler \<Rightarrow> Assembler" where
  "resolve r s = (if resolved s = None then s\<lparr>resolved := Some r\<rparr> else s)"

definition api_error :: "nat \<Rightarrow> string \<Rightarrow> HttpResponse" where
  "api_error code msg = \<lparr>status = code, body = ErrorBody ''api_error'' msg, headers = []\<rparr>"

definition onAssistant :: "string \<Rightarrow> string \<Rightarrow> CLIAssistantMessage \<Rightarrow> Assembler \<Rightarrow> Assembler" where
  "onAssistant own_sid sid msg s = (if sid \<noteq> own_sid then s else s\<lparr>lastAssistant := Some msg\<rparr>)"

definition onResult ::
  "string \<Rightarrow> string \<Rightarrow> string \<Rightarrow> CLIResultMessage \<Rightarrow> Assembler \<Rightarrow> Assembler" where
  "onResult uuid own_sid sid msg s =
     (if sid \<noteq> own_sid then s
      else let s1 = cleanup s
           in case lastAssistant s1 of
                None \<Rightarrow> resolve (api_error 500 ''No response received from Claude Code'') s1
              | Some la \<Rightarrow>
                  resolve \<lparr>status = 200, body = MessageBody (buildAnthropicResponse uuid la msg),
                           headers = [(''x-session-id'', own_sid)]\<rparr> s1)"

definition onError :: "string \<Rightarrow> string \<Rightarrow> string \<Rightarrow> Assembler \<Rightarrow> Assembler" where
  "onError own_sid sid err s =
     (if sid \<noteq> own_sid then s else resolve (api_error 500 err) (cleanup s))"

definition code_string :: "int option \<Rightarrow> string" where
  "code_string code = (case code of None \<Rightarrow> ''null'' | Some c \<Rightarrow> number_string c)"

definition onExit :: "string \<Rightarrow> string \<Rightarrow> int option \<Rightarrow> Assembler \<Rightarrow> Assembler" where
  "onExit own_sid sid code s =
     (if sid \<noteq> own_sid then s
      else resolve (api_error 500 (''CLI process exited with code '' @ code_string code)) (cleanup s))"

fun deliver :: "string \<Rightarrow> string \<Rightarrow> TurnEvent \<Rightarrow> Assembler \<Rightarrow> Assembler" where
  "deliver uuid own_sid (Notify (ev_assistant sid msg)) s =
     (if listening s then onAssistant own_sid sid msg s else s)"
| "deliver uuid own_sid (Notify (ev_result sid msg)) s =
     (if listening s then onResult uuid own_sid sid msg s else s)"
| "deliver uuid own_sid (Notify (ev_error sid err)) s =
     (if listening s then onError own_sid sid err s else s)"
| "deliver uuid own_sid (Notify (ev_exit sid code)) s =
     (if listening s then onExit own_sid sid code s else s)"
| "deliver uuid own_sid (Notify (ev_ready sid msg)) s = s"
| "deliver uuid own_sid (Notify (ev_stream_event sid msg)) s = s"
| "deliver uuid own_sid TurnTimeout s = resolve (api_error 504 ''Request timed out'') (cleanup s)"

definition assemble :: "string \<Rightarrow> string \<Rightarrow> TurnEvent list \<Rightarrow> HttpResponse option" where
  "assemble uuid own_sid tevs =
     resolved (fold (deliver uuid own_sid) tevs
                 \<lparr>lastAssistant = None, listening = True, resolved = None\<rparr>)"

text \<open>
  The call registers the listeners, dispatches the user message (an unknown session is
  the thrown error) and resolves from what reaches it afterwards; \<open>None\<close> is a promise
  still pending.
\<close>

definition handleNonStreaming ::
  "string \<Rightarrow> string \<Rightarrow> string \<Rightarrow> int \<Rightarrow> TurnEvent list \<Rightarrow> CliBridge
     \<Rightarrow> (string + HttpResponse option) \<times> CliBridge" where
  "handleNonStreaming own_sid content0 uuid now tevs b =
     (case sendUserMessage own_sid (JStr content0) None now b of
        Inl err \<Rightarrow> (Inl err, b)
      | Inr b' \<Rightarrow> (Inr (assemble uuid own_sid tevs), b'))"

section \<open>Predicates and examples of the properties\<close>

text \<open>A bridge with one session, spawned under the id \<open>ab-1\<close> at time 1000.\<close>

definition example_options :: SpawnOptions where
  "example_options =
     \<lparr>opt_model = None, opt_permissionMode = None, opt_cwd = None,
      opt_sessionId = Some ''ab-1'', opt_apiKey = None\<rparr>"

definition example_env :: Env where
  "example_env =
     \<lparr>random_uuid = ''0f8fad5b-d9cb-469f-a165-70867728950e'', process_cwd = ''/app'',
      spawn_pid = Some 4242\<rparr>"

definition example_bridge :: CliBridge where
  "example_bridge = snd (spawnSession example_options example_env 1000 (CliBridge_new 3458 None))"

text \<open>The transport of a session is absent or not writable.\<close>

definition not_writable :: "nat \<Rightarrow> CliBridge \<Rightarrow> bool" where
  "not_writable a b =
     (case cliSocket (objects b a) of
        None \<Rightarrow> True
      | Some ws \<Rightarrow> readyState (sockets b ws) \<noteq> OPEN)"

text \<open>The same bridge once the server has accepted a connection as socket 0.\<close>

definition example_accepted :: CliBridge where
  "example_accepted =
     example_bridge\<lparr>sockets := (sockets example_bridge)(0 := new_socket), next_socket := 1\<rparr>"

text \<open>The same bridge once that connection has been attached to the session.\<close>

definition example_connected :: CliBridge where
  "example_connected = handleConnection 0 ''/ws/cli/ab-1'' example_accepted"

definition example_request :: CLIControlRequestMessage where
  "example_request =
     \<lparr>request_id = ''req-1'',
      request = \<lparr>req_subtype = ''can_use_tool'', tool_name = ''Bash'',
                 req_input = JObj [(''command'', JStr ''ls'')], tool_use_id = ''tu-1''\<rparr>\<rparr>"

text \<open>
  What a call for session \<open>own\<close> lets pass: a notification for another session, and the
  kinds it has no listener for.
\<close>

fun passes_by :: "string \<Rightarrow> TurnEvent \<Rightarrow> bool" where
  "passes_by own (Notify (ev_assistant sid msg)) = (sid \<noteq> own)"
| "passes_by own (Notify (ev_result sid msg)) = (sid \<noteq> own)"
| "passes_by own (Notify (ev_error sid err)) = (sid \<noteq> own)"
| "passes_by own (Notify (ev_exit sid code)) = (sid \<noteq> own)"
| "passes_by own (Notify (ev_ready sid msg)) = True"
| "passes_by own (Notify (ev_stream_event sid msg)) = True"
| "passes_by own TurnTimeout = False"

text \<open>The notifications of the example turn: the text \<open>hi\<close>, then the result.\<close>

definition example_assistant :: CLIAssistantMessage where
  "example_assistant =
     \<lparr>message = \<lparr>msg_id = ''msg_01'', msg_model = ''claude-sonnet-4-5-20250929'',
                  msg_content = [TextBlock ''hi''], msg_stop_reason = None,
                  msg_usage = \<lparr>input_tokens = 3, output_tokens = 1,
                               cache_creation_input_tokens = None,
                               cache_read_input_tokens = None\<rparr>\<rparr>,
      asst_parent_tool_use_id = None, asst_session_id = ''cli-7''\<rparr>"

definition example_result :: CLIResultMessage where
  "example_result =
     \<lparr>res_subtype = ''success'', is_error = False, res_result = Some ''hi'', res_errors = None,
      duration_ms = 812, duration_api_ms = 640, num_turns = 1, total_cost_usd = 0,
      res_stop_reason = Some ''end_turn'',
      res_usage = \<lparr>input_tokens = 3, output_tokens = 1, cache_creation_input_tokens = None,
                    cache_read_input_tokens = Some 0\<rparr>,
      res_session_id = ''cli-7''\<rparr>"







text \<open>The session a connection with this url is attached to, if any: its id and object.\<close>

definition attach_target :: "string \<Rightarrow> CliBridge \<Rightarrow> (string \<times> nat) option" where
  "attach_target url b =
     (case match_cli_path url of
        None \<Rightarrow> None
      | Some sid \<Rightarrow> map_option (Pair sid) (map_of (sessions b) sid))"











section \<open>Properties\<close>

subsection \<open>What the primitive updates change\<close>

lemma upd_object_fields [simp]:
  "objects (upd_object a f b) = (objects b)(a := f (objects b a))"
  "sessions (upd_object a f b) = sessions b"
  "sockets (upd_object a f b) = sockets b"
  "procs (upd_object a f b) = procs b"
  "emitted (upd_object a f b) = emitted b"
  "next_object (upd_object a f b) = next_object b"
  "next_socket (upd_object a f b) = next_socket b"
  "next_proc (upd_object a f b) = next_proc b"
  "wsPort (upd_object a f b) = wsPort b"
  "sessionTimeout (upd_object a f b) = sessionTimeout b"
  by (simp_all add: upd_object_def)

lemma upd_info_fields [simp]:
  "objects (upd_info a g b) = (objects b)(a := (objects b a)\<lparr>info := g (info (objects b a))\<rparr>)"
  "sessions (upd_info a g b) = sessions b"
  "sockets (upd_info a g b) = sockets b"
  "procs (upd_info a g b) = procs b"
  "emitted (upd_info a g b) = emitted b"
  "next_object (upd_info a g b) = next_object b"
  "next_socket (upd_info a g b) = next_socket b"
  "next_proc (upd_info a g b) = next_proc b"
  "wsPort (upd_info a g b) = wsPort b"
  "sessionTimeout (upd_info a g b) = sessionTimeout b"
  by (simp_all add: upd_info_def)

lemma emit_fields [simp]:
  "objects (emit e b) = objects b"
  "sessions (emit e b) = sessions b"
  "sockets (emit e b) = sockets b"
  "procs (emit e b) = procs b"
  "emitted (emit e b) = emitted b @ [e]"
  "next_object (emit e b) = next_object b"
  "next_socket (emit e b) = next_socket b"
  "next_proc (emit e b) = next_proc b"
  "wsPort (emit e b) = wsPort b"
  "sessionTimeout (emit e b) = sessionTimeout b"
  by (simp_all add: emit_def)

lemma ws_send_fields [simp]:
  "objects (ws_send ws d b) = objects b"
  "sessions (ws_send ws d b) = sessions b"
  "sockets (ws_send ws d b) =
     (if readyState (sockets b ws) = OPEN
      then (sockets b)(ws := (sockets b ws)\<lparr>written := written (sockets b ws) @ [d]\<rparr>)
      else sockets b)"
  "procs (ws_send ws d b) = procs b"
  "emitted (ws_send ws d b) = emitted b"
  "next_object (ws_send ws d b) = next_object b"
  "next_socket (ws_send ws d b) = next_socket b"
  "next_proc (ws_send ws d b) = next_proc b"
  "wsPort (ws_send ws d b) = wsPort b"
  "sessionTimeout (ws_send ws d b) = sessionTimeout b"
  by (simp_all add: ws_send_def)

lemma ws_close_fields [simp]:
  "objects (ws_close ws c b) = objects b"
  "sessions (ws_close ws c b) = sessions b"
  "sockets (ws_close ws c b) =
     (if readyState (sockets b ws) = CLOSED \<or> readyState (sockets b ws) = CLOSING then sockets b
      else (sockets b)(ws := (sockets b ws)\<lparr>readyState := CLOSING, closeCode := c\<rparr>))"
  "procs (ws_close ws c b) = procs b"
  "emitted (ws_close ws c b) = emitted b"
  "next_object (ws_close ws c b) = next_object b"
  "next_socket (ws_close ws c b) = next_socket b"
  "next_proc (ws_close ws c b) = next_proc b"
  "wsPort (ws_close ws c b) = wsPort b"
  "sessionTimeout (ws_close ws c b) = sessionTimeout b"
  by (simp_all add: ws_close_def)

lemma proc_kill_fields [simp]:
  "objects (proc_kill p sg b) = objects b"
  "sessions (proc_kill p sg b) = sessions b"
  "sockets (proc_kill p sg b) = sockets b"
  "procs (proc_kill p sg b) =
     (if running (procs b p)
      then (procs b)(p := (procs b p)\<lparr>signals := signals (procs b p) @ [sg]\<rparr>)
      else procs b)"
  "emitted (proc_kill p sg b) = emitted b"
  "next_object (proc_kill p sg b) = next_object b"
  "next_socket (proc_kill p sg b) = next_socket b"
  "next_proc (proc_kill p sg b) = next_proc b"
  "wsPort (proc_kill p sg b) = wsPort b"
  "sessionTimeout (proc_kill p sg b) = sessionTimeout b"
  by (simp_all add: proc_kill_def)

subsection \<open>The example bridge\<close>

lemmas example_defs = example_bridge_def example_options_def example_env_def CliBridge_new_def
  spawnSession_def spawnCLI_def Let_def no_session_def no_socket_def no_process_def

lemma example_bridge_fields:
  "sessions example_bridge = [(''ab-1'', 0)]"
  "info (objects example_bridge 0) = \<lparr>sessionId = ''ab-1'', cliSessionId = None,
      model = ''claude-sonnet-4-5-20250929'', permissionMode = acceptEdits, state = Starting,
      pid = Some 4242, cwd = ''/app'', createdAt = 1000, lastUsedAt = 1000\<rparr>"
  "cliSocket (objects example_bridge 0) = None"
  "process (objects example_bridge 0) = Some 0"
  "pendingMessages (objects example_bridge 0) = []"
  "readyResolved (objects example_bridge 0) = False"
  "sockets example_bridge = (\<lambda>ws. no_socket)"
  "running (procs example_bridge 0) = True"
  "signals (procs example_bridge 0) = []"
  "proc_owner (procs example_bridge 0) = (''ab-1'', 0)"
  "next_object example_bridge = 1"
  "next_socket example_bridge = 0"
  "next_proc example_bridge = 1"
  "emitted example_bridge = []"
  "sessionTimeout example_bridge = 1800000"
  by (simp_all add: example_defs)

lemma example_accepted_fields:
  "sessions example_accepted = [(''ab-1'', 0)]"
  "objects example_accepted = objects example_bridge"
  "sockets example_accepted 0 = new_socket"
  "procs example_accepted = procs example_bridge"
  "next_object example_accepted = 1"
  "next_socket example_accepted = 1"
  "next_proc example_accepted = 1"
  "emitted example_accepted = []"
  "sessionTimeout example_accepted = 1800000"
  by (simp_all add: example_accepted_def example_bridge_fields)

subsection \<open>The outbound queue\<close>

lemma sendToCLI_queues:
  "not_writable a b \<Longrightarrow>
   sendToCLI a f b = upd_object a (\<lambda>m. m\<lparr>pendingMessages := pendingMessages m @ [f]\<rparr>) b"
  by (auto simp: not_writable_def sendToCLI_def split: option.splits)

lemma not_writable_queue:
  "not_writable a b \<Longrightarrow> not_writable a (upd_object a (\<lambda>m. m\<lparr>pendingMessages := g m\<rparr>) b)"
  by (auto simp: not_writable_def split: option.splits)

lemma fold_sendToCLI_queues:
  "not_writable a b \<Longrightarrow>
   objects (fold (sendToCLI a) frames b) x
     = (if x = a then (objects b a)\<lparr>pendingMessages := pendingMessages (objects b a) @ frames\<rparr>
        else objects b x)
   \<and> sockets (fold (sendToCLI a) frames b) = sockets b
   \<and> sessions (fold (sendToCLI a) frames b) = sessions b"
proof (induction frames arbitrary: b)
  case Nil
  then show ?case by simp
next
  case (Cons f fs)
  have nw: "not_writable a (upd_object a (\<lambda>m. m\<lparr>pendingMessages := pendingMessages m @ [f]\<rparr>) b)"
    using Cons.prems by (rule not_writable_queue)
  show ?case
    using Cons.IH[OF nw] by (simp add: sendToCLI_queues[OF Cons.prems])
qed

lemma flush_pending_fields:
  "objects (flush_pending ws pending b) = objects b
   \<and> sessions (flush_pending ws pending b) = sessions b
   \<and> sockets (flush_pending ws pending b) x =
       (if x = ws \<and> readyState (sockets b ws) = OPEN
        then (sockets b ws)\<lparr>written := written (sockets b ws) @ map (\<lambda>f. f @ ''\<newline>'') pending\<rparr>
        else sockets b x)"
proof (induction pending arbitrary: b)
  case Nil
  then show ?case by (simp add: flush_pending_def)
next
  case (Cons f fs)
  have "flush_pending ws (f # fs) b = flush_pending ws fs (ws_send ws (f @ ''\<newline>'') b)"
    by (simp add: flush_pending_def)
  then show ?case using Cons.IH[of "ws_send ws (f @ ''\<newline>'') b"] by simp
qed

text \<open>
  C1. While the session's transport is absent or not open, every frame passed to
  \<open>sendToCLI\<close> is appended to the session's queue and nothing is written; when a
  connection for the session attaches, the queued frames are written to it in their
  append order, each once, and the queue is left empty.
\<close>

theorem queue_fifo:
  assumes reg: "map_of (sessions b) sid = Some a"
    and url: "match_cli_path url = Some sid"
    and nw: "not_writable a b"
    and op: "readyState (sockets b ws) = OPEN"
  shows "pendingMessages (objects (fold (sendToCLI a) frames b) a)
           = pendingMessages (objects b a) @ frames
    \<and> sockets (fold (sendToCLI a) frames b) = sockets b
    \<and> written (sockets (handleConnection ws url (fold (sendToCLI a) frames b)) ws)
        = written (sockets b ws)
            @ map (\<lambda>f. f @ ''\<newline>'') (pendingMessages (objects b a) @ frames)
    \<and> pendingMessages (objects (handleConnection ws url (fold (sendToCLI a) frames b)) a) = []
    \<and> cliSocket (objects (handleConnection ws url (fold (sendToCLI a) frames b)) a) = Some ws"
proof -
  note q = fold_sendToCLI_queues[OF nw, of frames]
  show ?thesis
    using op
    by (simp add: handleConnection_def url reg q Let_def flush_pending_fields)
qed

theorem queue_fifo_witness:
  "map_of (sessions example_accepted) ''ab-1'' = Some 0
   \<and> match_cli_path ''/ws/cli/ab-1'' = Some ''ab-1''
   \<and> not_writable 0 example_accepted
   \<and> readyState (sockets example_accepted 0) = OPEN
   \<and> pendingMessages (objects (fold (sendToCLI 0) [''x'', ''y''] example_accepted) 0) = [''x'', ''y'']
   \<and> written (sockets (handleConnection 0 ''/ws/cli/ab-1''
                         (fold (sendToCLI 0) [''x'', ''y''] example_accepted)) 0)
       = [''x\<newline>'', ''y\<newline>'']
   \<and> pendingMessages (objects (handleConnection 0 ''/ws/cli/ab-1''
                                 (fold (sendToCLI 0) [''x'', ''y''] example_accepted)) 0) = []"
proof -
  have h1: "map_of (sessions example_accepted) ''ab-1'' = Some 0"
    by (simp add: example_accepted_fields)
  have h2: "match_cli_path ''/ws/cli/ab-1'' = Some ''ab-1''"
    by (simp add: match_cli_path_def in_class_def)
  have h3: "not_writable 0 example_accepted"
    by (simp add: not_writable_def example_accepted_fields example_bridge_fields)
  have h4: "readyState (sockets example_accepted 0) = OPEN"
    by (simp add: example_accepted_fields new_socket_def)
  show ?thesis
    using queue_fifo[OF h1 h2 h3 h4, of "[''x'', ''y'']"] h1 h2 h3 h4
    by (simp add: example_accepted_fields example_bridge_fields new_socket_def)
qed

subsection \<open>Permission requests\<close>

text \<open>
  C3. Routing a \<open>control_request\<close> of subtype \<open>can_use_tool\<close> hands exactly one frame
  to the session's transport: the \<open>control_response\<close> with behavior \<open>allow\<close>, the
  request's \<open>request_id\<close> and the request's input as \<open>updatedInput\<close>. It is written to
  the socket when that is open and appended to the queue otherwise. A request of any
  other subtype changes nothing.
\<close>

theorem auto_approve_once:
  fixes m :: CLIControlRequestMessage
  defines "frame \<equiv>
     JSON_stringify
       (JObj [(''type'', JStr ''control_response''),
              (''response'',
               JObj [(''subtype'', JStr ''success''),
                     (''request_id'', JStr (request_id m)),
                     (''response'',
                      JObj [(''behavior'', JStr ''allow''),
                            (''updatedInput'', req_input (request m))])])])"
  shows "(req_subtype (request m) = ''can_use_tool'' \<and> cliSocket (objects b a) = Some ws
            \<and> readyState (sockets b ws) = OPEN \<longrightarrow>
          written (sockets (routeMessage sid a (msg_control_request m) now b) ws)
            = written (sockets b ws) @ [frame @ ''\<newline>'']
          \<and> (\<forall>ws'. ws' \<noteq> ws \<longrightarrow>
                sockets (routeMessage sid a (msg_control_request m) now b) ws' = sockets b ws')
          \<and> objects (routeMessage sid a (msg_control_request m) now b) = objects b)
    \<and> (req_subtype (request m) = ''can_use_tool'' \<and> not_writable a b \<longrightarrow>
          pendingMessages (objects (routeMessage sid a (msg_control_request m) now b) a)
            = pendingMessages (objects b a) @ [frame]
          \<and> sockets (routeMessage sid a (msg_control_request m) now b) = sockets b)
    \<and> (req_subtype (request m) \<noteq> ''can_use_tool'' \<longrightarrow>
          routeMessage sid a (msg_control_request m) now b = b)"
  by (simp add: frame_def autoApprovePermission_def control_response_def sendToCLI_def
                not_writable_def split: option.splits)

lemma match_example_path: "match_cli_path ''/ws/cli/ab-1'' = Some ''ab-1''"
  by (simp add: match_cli_path_def in_class_def)

lemma example_connected_fields:
  "sessions example_connected = [(''ab-1'', 0)]"
  "info (objects example_connected 0) = \<lparr>sessionId = ''ab-1'', cliSessionId = None,
      model = ''claude-sonnet-4-5-20250929'', permissionMode = acceptEdits, state = Connected,
      pid = Some 4242, cwd = ''/app'', createdAt = 1000, lastUsedAt = 1000\<rparr>"
  "cliSocket (objects example_connected 0) = Some 0"
  "process (objects example_connected 0) = Some 0"
  "pendingMessages (objects example_connected 0) = []"
  "readyResolved (objects example_connected 0) = False"
  "sockets example_connected 0
     = \<lparr>readyState = OPEN, written = [], closeCode = None, handlers = Some (''ab-1'', 0)\<rparr>"
  "procs example_connected = procs example_bridge"
  "next_object example_connected = 1"
  "next_socket example_connected = 1"
  "next_proc example_connected = 1"
  "emitted example_connected = []"
  "sessionTimeout example_connected = 1800000"
  by (simp_all add: example_connected_def handleConnection_def match_example_path Let_def
        flush_pending_def example_accepted_fields example_bridge_fields new_socket_def)

theorem auto_approve_once_witness:
  "(req_subtype (request example_request) = ''can_use_tool''
      \<and> cliSocket (objects example_connected 0) = Some 0
      \<and> readyState (sockets example_connected 0) = OPEN
      \<and> written (sockets (routeMessage ''ab-1'' 0 (msg_control_request example_request) 5
                            example_connected) 0)
          = [JSON_stringify
               (JObj [(''type'', JStr ''control_response''),
                      (''response'',
                       JObj [(''subtype'', JStr ''success''),
                             (''request_id'', JStr ''req-1''),
                             (''response'',
                              JObj [(''behavior'', JStr ''allow''),
                                    (''updatedInput'', JObj [(''command'', JStr ''ls'')])])])])
             @ ''\<newline>''])
   \<and> (not_writable 0 example_bridge
      \<and> pendingMessages (objects (routeMessage ''ab-1'' 0 (msg_control_request example_request) 5
                                    example_bridge) 0)
          = [JSON_stringify
               (JObj [(''type'', JStr ''control_response''),
                      (''response'',
                       JObj [(''subtype'', JStr ''success''),
                             (''request_id'', JStr ''req-1''),
                             (''response'',
                              JObj [(''behavior'', JStr ''allow''),
                                    (''updatedInput'', JObj [(''command'', JStr ''ls'')])])])])])
   \<and> (req_subtype (request (example_request\<lparr>request := (request example_request)\<lparr>req_subtype := ''interrupt''\<rparr>\<rparr>))
        \<noteq> ''can_use_tool''
      \<and> routeMessage ''ab-1'' 0
          (msg_control_request
             (example_request\<lparr>request := (request example_request)\<lparr>req_subtype := ''interrupt''\<rparr>\<rparr>))
          5 example_connected = example_connected)"
proof -
  have s: "req_subtype (request example_request) = ''can_use_tool''"
    "request_id example_request = ''req-1''"
    "req_input (request example_request) = JObj [(''command'', JStr ''ls'')]"
    by (simp_all add: example_request_def)
  have c: "cliSocket (objects example_connected 0) = Some 0"
    "readyState (sockets example_connected 0) = OPEN"
    by (simp_all add: example_connected_fields)
  have n: "not_writable 0 example_bridge"
    by (simp add: not_writable_def example_bridge_fields)
  have o: "req_subtype (request (example_request\<lparr>request := (request example_request)\<lparr>req_subtype := ''interrupt''\<rparr>\<rparr>))
        \<noteq> ''can_use_tool''"
    by simp
  note w = auto_approve_once[where m = example_request and b = example_connected and a = 0
             and ws = 0 and sid = "''ab-1''" and now = 5]
  note q = auto_approve_once[where m = example_request and b = example_bridge and a = 0
             and ws = 0 and sid = "''ab-1''" and now = 5]
  note r = auto_approve_once[where
             m = "example_request\<lparr>request := (request example_request)\<lparr>req_subtype := ''interrupt''\<rparr>\<rparr>"
             and b = example_connected and a = 0 and ws = 0 and sid = "''ab-1''" and now = 5]
  have 1: "written (sockets (routeMessage ''ab-1'' 0 (msg_control_request example_request) 5
                            example_connected) 0)
          = [JSON_stringify
               (JObj [(''type'', JStr ''control_response''),
                      (''response'',
                       JObj [(''subtype'', JStr ''success''),
                             (''request_id'', JStr ''req-1''),
                             (''response'',
                              JObj [(''behavior'', JStr ''allow''),
                                    (''updatedInput'', JObj [(''command'', JStr ''ls'')])])])])
             @ ''\<newline>'']"
    using w s c by (simp add: example_connected_fields)
  have 2: "pendingMessages (objects (routeMessage ''ab-1'' 0 (msg_control_request example_request) 5
                                    example_bridge) 0)
          = [JSON_stringify
               (JObj [(''type'', JStr ''control_response''),
                      (''response'',
                       JObj [(''subtype'', JStr ''success''),
                             (''request_id'', JStr ''req-1''),
                             (''response'',
                              JObj [(''behavior'', JStr ''allow''),
                                    (''updatedInput'', JObj [(''command'', JStr ''ls'')])])])])]"
    using q s n by (simp add: example_bridge_fields)
  have 3: "routeMessage ''ab-1'' 0
          (msg_control_request
             (example_request\<lparr>request := (request example_request)\<lparr>req_subtype := ''interrupt''\<rparr>\<rparr>))
          5 example_connected = example_connected"
    using r o by blast
  show ?thesis using s(1) c n o 1 2 3 by blast
qed

subsection \<open>The non-streaming assembler\<close>

lemma deliver_passes_by: "passes_by own e \<Longrightarrow> deliver uuid own e s = s"
  by (induction own e rule: passes_by.induct)
     (simp_all add: onAssistant_def onResult_def onError_def onExit_def)

lemma fold_deliver_passes_by:
  "\<forall>e \<in> set es. passes_by own e \<Longrightarrow> fold (deliver uuid own) es s = s"
  by (induction es arbitrary: s) (simp_all add: deliver_passes_by)

lemma deliver_keeps_resolved:
  "resolved s = Some r \<Longrightarrow> resolved (deliver uuid own e s) = Some r"
proof (cases e)
  case (Notify n)
  assume "resolved s = Some r"
  then show ?thesis
    unfolding Notify
    by (cases n)
       (simp_all add: onAssistant_def onResult_def onError_def onExit_def resolve_def cleanup_def
             Let_def split: option.splits)
next
  case TurnTimeout
  assume "resolved s = Some r"
  then show ?thesis unfolding TurnTimeout by (simp add: resolve_def cleanup_def)
qed

lemma fold_deliver_keeps_resolved:
  "resolved s = Some r \<Longrightarrow> resolved (fold (deliver uuid own) es s) = Some r"
  by (induction es arbitrary: s) (simp_all add: deliver_keeps_resolved)

text \<open>
  C7. When the notifications for the call's session are one \<open>assistant\<close> followed by
  one \<open>result\<close> (whatever passes by before and between, whatever follows), the call
  resolves with status 200 and the response built from the two: role \<open>assistant\<close>, the
  assistant notification's content, the result's usage fields. Until the result arrives
  the call is pending.
\<close>

theorem assemble_one_turn:
  assumes "\<forall>e \<in> set pre \<union> set mid. passes_by own e"
  shows "assemble uuid own (pre @ Notify (ev_assistant own a) # mid @ Notify (ev_result own r) # post)
           = Some \<lparr>status = 200, body = MessageBody (buildAnthropicResponse uuid a r),
                   headers = [(''x-session-id'', own)]\<rparr>
    \<and> assemble uuid own (pre @ Notify (ev_assistant own a) # mid) = None
    \<and> role (buildAnthropicResponse uuid a r) = ''assistant''
    \<and> content (buildAnthropicResponse uuid a r) = msg_content (message a)
    \<and> usage (buildAnthropicResponse uuid a r) = res_usage r"
proof -
  let ?s0 = "\<lparr>lastAssistant = None, listening = True, resolved = None\<rparr>"
  let ?s1 = "\<lparr>lastAssistant = Some a, listening = True, resolved = None\<rparr>"
  let ?resp = "\<lparr>status = 200, body = MessageBody (buildAnthropicResponse uuid a r),
                   headers = [(''x-session-id'', own)]\<rparr>"
  have pre: "fold (deliver uuid own) pre ?s0 = ?s0"
    using assms by (intro fold_deliver_passes_by) simp
  have mid: "fold (deliver uuid own) mid ?s1 = ?s1"
    using assms by (intro fold_deliver_passes_by) simp
  have a: "deliver uuid own (Notify (ev_assistant own a)) ?s0 = ?s1"
    by (simp add: onAssistant_def)
  have r: "resolved (deliver uuid own (Notify (ev_result own r)) ?s1) = Some ?resp"
    by (simp add: onResult_def cleanup_def resolve_def)
  have "fold (deliver uuid own)
          (pre @ Notify (ev_assistant own a) # mid @ Notify (ev_result own r) # post) ?s0
        = fold (deliver uuid own) post
            (deliver uuid own (Notify (ev_result own r))
               (fold (deliver uuid own) mid
                  (deliver uuid own (Notify (ev_assistant own a))
                     (fold (deliver uuid own) pre ?s0))))"
    by (simp del: deliver.simps)
  then have "assemble uuid own (pre @ Notify (ev_assistant own a) # mid @ Notify (ev_result own r) # post)
          = resolved (fold (deliver uuid own) post (deliver uuid own (Notify (ev_result own r)) ?s1))"
    unfolding assemble_def pre a mid by (rule arg_cong)
  also have "\<dots> = Some ?resp"
    using r by (rule fold_deliver_keeps_resolved)
  finally have fin: "assemble uuid own
        (pre @ Notify (ev_assistant own a) # mid @ Notify (ev_result own r) # post) = Some ?resp" .
  have "fold (deliver uuid own) (pre @ Notify (ev_assistant own a) # mid) ?s0
        = fold (deliver uuid own) mid
            (deliver uuid own (Notify (ev_assistant own a)) (fold (deliver uuid own) pre ?s0))"
    by (simp del: deliver.simps)
  then have waits: "assemble uuid own (pre @ Notify (ev_assistant own a) # mid) = None"
    unfolding assemble_def pre a mid by simp
  show ?thesis
    using fin waits by (simp add: buildAnthropicResponse_def)
qed

theorem assemble_one_turn_witness:
  "passes_by ''ab-1'' (Notify (ev_assistant ''other'' example_assistant))
   \<and> assemble ''0f8fad5b'' ''ab-1''
        ([Notify (ev_assistant ''other'' example_assistant)]
         @ Notify (ev_assistant ''ab-1'' example_assistant)
           # [] @ Notify (ev_result ''ab-1'' example_result) # [TurnTimeout])
      = Some \<lparr>status = 200,
              body = MessageBody
                \<lparr>resp_id = ''msg_01'', resp_type = ''message'', role = ''assistant'',
                 content = [TextBlock ''hi''], resp_model = ''claude-sonnet-4-5-20250929'',
                 stop_reason = Some ''end_turn'', stop_sequence = None,
                 usage = \<lparr>input_tokens = 3, output_tokens = 1,
                           cache_creation_input_tokens = None,
                           cache_read_input_tokens = Some 0\<rparr>\<rparr>,
              headers = [(''x-session-id'', ''ab-1'')]\<rparr>"
proof -
  have h: "\<forall>e \<in> set [Notify (ev_assistant ''other'' example_assistant)] \<union> set []. passes_by ''ab-1'' e"
    by simp
  show ?thesis
    using assemble_one_turn[OF h, of "''0f8fad5b''" example_assistant example_result "[TurnTimeout]"]
    by (simp add: buildAnthropicResponse_def mapStopReason_def example_assistant_def
                  example_result_def)
qed

subsection \<open>getOrCreate on an existing session\<close>

lemma getOrCreate_existing:
  assumes "opt_sessionId options = Some sid" and "sid \<noteq> []"
    and "map_of (sessions b) sid = Some a" and "state (info (objects b a)) \<noteq> Exited"
  shows "getOrCreate options env now evs b
           = (Inr \<lparr>res_sessionId = sid, res_info = Some (info (objects b a)), isNew = False\<rparr>,
              now, b, evs)"
  using assms by (simp add: getOrCreate_def hasSession_def getSession_def)

lemma getOrCreate_existing_twice:
  assumes "opt_sessionId options = Some sid" and "sid \<noteq> []"
    and "map_of (sessions b) sid = Some a" and "state (info (objects b a)) \<noteq> Exited"
  shows "(case getOrCreate options env now evs b of
            (r1, t1, b1, evs1) \<Rightarrow>
              (case getOrCreate options env' t1 evs1 b1 of
                 (r2, t2, b2, evs2) \<Rightarrow>
                   map_sum id res_sessionId r1 = Inr sid \<and> map_sum id res_sessionId r2 = Inr sid
                   \<and> map_sum id isNew r1 = Inr False \<and> map_sum id isNew r2 = Inr False
                   \<and> b2 = b))"
  using assms by (simp add: getOrCreate_existing)



subsection \<open>The idle reaper\<close>

lemma killSession_finish_fields [simp]:
  "objects (killSession_finish sid a b) = objects b"
  "sessionTimeout (killSession_finish sid a b) = sessionTimeout b"
  "sessions (killSession_finish sid a b) = AList.delete sid (sessions b)"
  "procs (killSession_finish sid a b) = procs b"
  by (simp_all add: killSession_finish_def Let_def split: option.splits)









subsection \<open>killSession\<close>

lemma run_Nil [simp]: "run [] b = b"
  by (simp add: run_def)

lemma run_Cons [simp]: "run ((t, e) # evs) b = run evs (step t e b)"
  by (simp add: run_def)

lemma run_append [simp]: "run (xs @ ys) b = run ys (run xs b)"
  by (simp add: run_def)


lemma map_of_delete_self [simp]: "map_of (AList.delete k al) k = None"
  by (simp add: AList.delete_conv')




subsection \<open>What each operation changes\<close>

lemma sendToCLI_fields [simp]:
  "info (objects (sendToCLI a f b) x) = info (objects b x)"
  "cliSocket (objects (sendToCLI a f b) x) = cliSocket (objects b x)"
  "process (objects (sendToCLI a f b) x) = process (objects b x)"
  "readyResolved (objects (sendToCLI a f b) x) = readyResolved (objects b x)"
  "sessions (sendToCLI a f b) = sessions b"
  "procs (sendToCLI a f b) = procs b"
  "emitted (sendToCLI a f b) = emitted b"
  "next_object (sendToCLI a f b) = next_object b"
  "next_socket (sendToCLI a f b) = next_socket b"
  "next_proc (sendToCLI a f b) = next_proc b"
  "sessionTimeout (sendToCLI a f b) = sessionTimeout b"
  "readyState (sockets (sendToCLI a f b) w) = readyState (sockets b w)"
  "handlers (sockets (sendToCLI a f b) w) = handlers (sockets b w)"
  "closeCode (sockets (sendToCLI a f b) w) = closeCode (sockets b w)"
  by (simp_all add: sendToCLI_def split: option.splits)

lemma routeMessage_fields [simp]:
  "sessionId (info (objects (routeMessage sid a m now b) x)) = sessionId (info (objects b x))"
  "cliSocket (objects (routeMessage sid a m now b) x) = cliSocket (objects b x)"
  "process (objects (routeMessage sid a m now b) x) = process (objects b x)"
  "sessions (routeMessage sid a m now b) = sessions b"
  "procs (routeMessage sid a m now b) = procs b"
  "next_object (routeMessage sid a m now b) = next_object b"
  "next_socket (routeMessage sid a m now b) = next_socket b"
  "next_proc (routeMessage sid a m now b) = next_proc b"
  "sessionTimeout (routeMessage sid a m now b) = sessionTimeout b"
  "readyState (sockets (routeMessage sid a m now b) w) = readyState (sockets b w)"
  "handlers (sockets (routeMessage sid a m now b) w) = handlers (sockets b w)"
  by (cases m; simp add: autoApprovePermission_def Let_def)+




lemma route_line_fields [simp]:
  "sessionId (info (objects (route_line sid a now l b) x)) = sessionId (info (objects b x))"
  "cliSocket (objects (route_line sid a now l b) x) = cliSocket (objects b x)"
  "process (objects (route_line sid a now l b) x) = process (objects b x)"
  "sessions (route_line sid a now l b) = sessions b"
  "procs (route_line sid a now l b) = procs b"
  "next_object (route_line sid a now l b) = next_object b"
  "next_socket (route_line sid a now l b) = next_socket b"
  "next_proc (route_line sid a now l b) = next_proc b"
  "sessionTimeout (route_line sid a now l b) = sessionTimeout b"
  "readyState (sockets (route_line sid a now l b) w) = readyState (sockets b w)"
  "handlers (sockets (route_line sid a now l b) w) = handlers (sockets b w)"
  by (simp_all add: route_line_def split: option.splits)

lemma fold_obs:
  assumes "\<And>l b. obs (f l b) = obs b"
  shows "obs (fold f ls b) = obs b"
  by (induction ls arbitrary: b) (simp_all add: assms)


lemma on_message_fields [simp]:
  "sessionId (info (objects (on_message ws ls now b) x)) = sessionId (info (objects b x))"
  "cliSocket (objects (on_message ws ls now b) x) = cliSocket (objects b x)"
  "process (objects (on_message ws ls now b) x) = process (objects b x)"
  "sessions (on_message ws ls now b) = sessions b"
  "procs (on_message ws ls now b) = procs b"
  "next_object (on_message ws ls now b) = next_object b"
  "next_socket (on_message ws ls now b) = next_socket b"
  "next_proc (on_message ws ls now b) = next_proc b"
  "sessionTimeout (on_message ws ls now b) = sessionTimeout b"
  "readyState (sockets (on_message ws ls now b) w) = readyState (sockets b w)"
  "handlers (sockets (on_message ws ls now b) w) = handlers (sockets b w)"
  by (simp_all add: on_message_def
        fold_obs[where obs = "\<lambda>b. sessionId (info (objects b x))"]
        fold_obs[where obs = "\<lambda>b. cliSocket (objects b x)"]
        fold_obs[where obs = "\<lambda>b. process (objects b x)"]
        fold_obs[where obs = sessions] fold_obs[where obs = procs]
        fold_obs[where obs = next_object] fold_obs[where obs = next_socket]
        fold_obs[where obs = next_proc] fold_obs[where obs = sessionTimeout]
        fold_obs[where obs = "\<lambda>b. readyState (sockets b w)"]
        fold_obs[where obs = "\<lambda>b. handlers (sockets b w)"]
        split: option.splits prod.splits)




lemma flush_pending_more [simp]:
  "procs (flush_pending ws pending b) = procs b"
  "next_object (flush_pending ws pending b) = next_object b"
  "next_socket (flush_pending ws pending b) = next_socket b"
  "next_proc (flush_pending ws pending b) = next_proc b"
  "sessionTimeout (flush_pending ws pending b) = sessionTimeout b"
  "emitted (flush_pending ws pending b) = emitted b"
  by (simp_all add: flush_pending_def
        fold_obs[where obs = procs] fold_obs[where obs = next_object]
        fold_obs[where obs = next_socket] fold_obs[where obs = next_proc]
        fold_obs[where obs = sessionTimeout] fold_obs[where obs = emitted])


lemma handleConnection_attached:
  "attach_target url b = Some (sid, a) \<Longrightarrow>
   objects (handleConnection ws url b) x
     = (if x = a
        then (objects b a)\<lparr>cliSocket := Some ws, info := (info (objects b a))\<lparr>state := Connected\<rparr>,
                            pendingMessages := []\<rparr>
        else objects b x)
   \<and> sockets (handleConnection ws url b) w
     = (if w = ws
        then (if readyState (sockets b ws) = OPEN
              then (sockets b ws)\<lparr>written := written (sockets b ws)
                       @ map (\<lambda>f. f @ ''\<newline>'') (pendingMessages (objects b a))\<rparr>
              else sockets b ws)\<lparr>handlers := Some (sid, a)\<rparr>
        else sockets b w)
   \<and> sessions (handleConnection ws url b) = sessions b
   \<and> procs (handleConnection ws url b) = procs b
   \<and> next_object (handleConnection ws url b) = next_object b
   \<and> next_socket (handleConnection ws url b) = next_socket b
   \<and> next_proc (handleConnection ws url b) = next_proc b
   \<and> sessionTimeout (handleConnection ws url b) = sessionTimeout b"
proof -
  assume "attach_target url b = Some (sid, a)"
  then have m: "match_cli_path url = Some sid" "map_of (sessions b) sid = Some a"
    by (auto simp: attach_target_def split: option.splits)
  show ?thesis
    by (simp add: handleConnection_def m Let_def flush_pending_fields)
qed


lemma on_close_fields [simp]:
  "sessions (on_close ws b) = sessions b"
  "procs (on_close ws b) = procs b"
  "next_object (on_close ws b) = next_object b"
  "next_socket (on_close ws b) = next_socket b"
  "next_proc (on_close ws b) = next_proc b"
  "sessionTimeout (on_close ws b) = sessionTimeout b"
  "info (objects (on_close ws b) x) = info (objects b x)"
  "readyResolved (objects (on_close ws b) x) = readyResolved (objects b x)"
  "process (objects (on_close ws b) x) = process (objects b x)"
  "pendingMessages (objects (on_close ws b) x) = pendingMessages (objects b x)"
  "cliSocket (objects (on_close ws b) x)
     = (if \<exists>sid. handlers (sockets b ws) = Some (sid, x) then None else cliSocket (objects b x))"
  "handlers (sockets (on_close ws b) w) = handlers (sockets b w)"
  "written (sockets (on_close ws b) w) = written (sockets b w)"
  "readyState (sockets (on_close ws b) w) = (if w = ws then CLOSED else readyState (sockets b w))"
  by (auto simp: on_close_def Let_def split: option.splits)

lemma on_exit_fields [simp]:
  "sessions (on_exit p code b) = sessions b"
  "sockets (on_exit p code b) = sockets b"
  "next_object (on_exit p code b) = next_object b"
  "next_socket (on_exit p code b) = next_socket b"
  "next_proc (on_exit p code b) = next_proc b"
  "sessionTimeout (on_exit p code b) = sessionTimeout b"
  "sessionId (info (objects (on_exit p code b) x)) = sessionId (info (objects b x))"
  "readyResolved (objects (on_exit p code b) x) = readyResolved (objects b x)"
  "process (objects (on_exit p code b) x) = process (objects b x)"
  "cliSocket (objects (on_exit p code b) x) = cliSocket (objects b x)"
  "state (info (objects (on_exit p code b) x))
     = (if x = snd (proc_owner (procs b p)) then Exited else state (info (objects b x)))"
  by (auto simp: on_exit_def Let_def split: prod.splits)

lemma on_error_fields [simp]:
  "sessions (on_error p err b) = sessions b"
  "sockets (on_error p err b) = sockets b"
  "objects (on_error p err b) = objects b"
  "procs (on_error p err b) = procs b"
  "next_object (on_error p err b) = next_object b"
  "next_socket (on_error p err b) = next_socket b"
  "next_proc (on_error p err b) = next_proc b"
  "sessionTimeout (on_error p err b) = sessionTimeout b"
  by (simp_all add: on_error_def)



lemma sendInterrupt_fields [simp]:
  "info (objects (sendInterrupt sid u b) x) = info (objects b x)"
  "cliSocket (objects (sendInterrupt sid u b) x) = cliSocket (objects b x)"
  "process (objects (sendInterrupt sid u b) x) = process (objects b x)"
  "readyResolved (objects (sendInterrupt sid u b) x) = readyResolved (objects b x)"
  "sessions (sendInterrupt sid u b) = sessions b"
  "procs (sendInterrupt sid u b) = procs b"
  "next_object (sendInterrupt sid u b) = next_object b"
  "next_socket (sendInterrupt sid u b) = next_socket b"
  "next_proc (sendInterrupt sid u b) = next_proc b"
  "sessionTimeout (sendInterrupt sid u b) = sessionTimeout b"
  "readyState (sockets (sendInterrupt sid u b) w) = readyState (sockets b w)"
  "handlers (sockets (sendInterrupt sid u b) w) = handlers (sockets b w)"
  by (simp_all add: sendInterrupt_def split: option.splits)

lemma killSession_finish_more [simp]:
  "next_object (killSession_finish sid a b) = next_object b"
  "next_socket (killSession_finish sid a b) = next_socket b"
  "next_proc (killSession_finish sid a b) = next_proc b"
  "handlers (sockets (killSession_finish sid a b) w) = handlers (sockets b w)"
  "written (sockets (killSession_finish sid a b) w) = written (sockets b w)"
  by (simp_all add: killSession_finish_def Let_def split: option.splits)

lemma kill_timer_fields [simp]:
  "objects (kill_timer a b) = objects b"
  "sessions (kill_timer a b) = sessions b"
  "sockets (kill_timer a b) = sockets b"
  "next_object (kill_timer a b) = next_object b"
  "next_socket (kill_timer a b) = next_socket b"
  "next_proc (kill_timer a b) = next_proc b"
  "sessionTimeout (kill_timer a b) = sessionTimeout b"
  by (simp_all add: kill_timer_def split: option.splits)


subsection \<open>Reachable bridges\<close>

















subsection \<open>Waiting for readiness\<close>






lemma attach_example: "attach_target ''/ws/cli/ab-1'' example_bridge = Some (''ab-1'', 0)"
  by (simp add: attach_target_def match_example_path example_bridge_fields)





subsection \<open>Session ids the path pattern does not match\<close>












subsection \<open>The lifecycle state\<close>













subsection \<open>After the transport has closed\<close>

text \<open>
  C9, as the code has it. When the connection of a session closes, the session's
  transport handle is cleared and the record kept. Frames sent from then on are queued
  and nothing is written to any socket. A later connection on the session's path is
  accepted: it becomes the session's transport, the state becomes connected, and the
  queued frames are written to it in order.
\<close>

theorem reattach_after_close:
  assumes h: "handlers (sockets b ws) = Some (sid, a)"
    and reg: "map_of (sessions b) sid = Some a"
    and m: "match_cli_path url = Some sid"
  shows "cliSocket (objects (on_close ws b) a) = None
    \<and> sessions (on_close ws b) = sessions b
    \<and> pendingMessages (objects (fold (sendToCLI a) frames (on_close ws b)) a)
        = pendingMessages (objects b a) @ frames
    \<and> sockets (fold (sendToCLI a) frames (on_close ws b)) = sockets (on_close ws b)
    \<and> cliSocket (objects (on_connection url (fold (sendToCLI a) frames (on_close ws b))) a)
        = Some (next_socket b)
    \<and> state (info (objects (on_connection url (fold (sendToCLI a) frames (on_close ws b))) a))
        = Connected
    \<and> written (sockets (on_connection url (fold (sendToCLI a) frames (on_close ws b)))
                  (next_socket b))
        = map (\<lambda>f. f @ ''\<newline>'') (pendingMessages (objects b a) @ frames)
    \<and> pendingMessages (objects (on_connection url (fold (sendToCLI a) frames (on_close ws b))) a)
        = []"
proof -
  let ?b1 = "on_close ws b"
  let ?b2 = "fold (sendToCLI a) frames ?b1"
  let ?n = "next_socket b"
  let ?b2' = "?b2\<lparr>sockets := (sockets ?b2)(?n := new_socket), next_socket := Suc ?n\<rparr>"
  have c1: "cliSocket (objects ?b1 a) = None" using h by simp
  then have nw: "not_writable a ?b1" by (simp add: not_writable_def)
  note q = fold_sendToCLI_queues[OF nw, of frames]
  have p2: "pendingMessages (objects ?b2 a) = pendingMessages (objects b a) @ frames"
    using q[of a] by simp
  have n2: "next_socket ?b2 = ?n"
    by (simp add: fold_obs[where obs = next_socket])
  have t: "attach_target url ?b2' = Some (sid, a)"
    using reg m q by (simp add: attach_target_def)
  have oc: "on_connection url ?b2 = handleConnection ?n url ?b2'"
    by (simp add: on_connection_def Let_def n2)
  note a = handleConnection_attached[OF t, of ?n a ?n]
  have 5: "cliSocket (objects (on_connection url ?b2) a) = Some ?n"
    and 6: "state (info (objects (on_connection url ?b2) a)) = Connected"
    and 7: "written (sockets (on_connection url ?b2) ?n)
              = map (\<lambda>f. f @ ''\<newline>'') (pendingMessages (objects b a) @ frames)"
    and 8: "pendingMessages (objects (on_connection url ?b2) a) = []"
    unfolding oc using a p2 by (simp_all add: new_socket_def)
  show ?thesis
    using c1 p2 q 5 6 7 8 by simp
qed

theorem reattach_after_close_witness:
  "handlers (sockets example_connected 0) = Some (''ab-1'', 0)
   \<and> map_of (sessions example_connected) ''ab-1'' = Some 0
   \<and> match_cli_path ''/ws/cli/ab-1'' = Some ''ab-1''
   \<and> cliSocket (objects (on_close 0 example_connected) 0) = None
   \<and> cliSocket (objects (on_connection ''/ws/cli/ab-1''
                            (fold (sendToCLI 0) [''x'', ''y''] (on_close 0 example_connected))) 0)
       = Some 1
   \<and> written (sockets (on_connection ''/ws/cli/ab-1''
                          (fold (sendToCLI 0) [''x'', ''y''] (on_close 0 example_connected))) 1)
       = [''x\<newline>'', ''y\<newline>'']"
proof -
  have h: "handlers (sockets example_connected 0) = Some (''ab-1'', 0)"
    and r: "map_of (sessions example_connected) ''ab-1'' = Some 0"
    by (simp_all add: example_connected_fields)
  note T = reattach_after_close[OF h r match_example_path, of "[''x'', ''y'']"]
  have n: "next_socket example_connected = 1" "pendingMessages (objects example_connected 0) = []"
    by (simp_all add: example_connected_fields)
  from T have 1: "cliSocket (objects (on_close 0 example_connected) 0) = None" by blast
  from T have 2: "cliSocket (objects (on_connection ''/ws/cli/ab-1''
                            (fold (sendToCLI 0) [''x'', ''y''] (on_close 0 example_connected))) 0)
       = Some 1"
    unfolding n by blast
  from T have "written (sockets (on_connection ''/ws/cli/ab-1''
                          (fold (sendToCLI 0) [''x'', ''y''] (on_close 0 example_connected))) 1)
       = map (\<lambda>f. f @ ''\<newline>'') ([] @ [''x'', ''y''])"
    unfolding n by blast
  then have 3: "written (sockets (on_connection ''/ws/cli/ab-1''
                          (fold (sendToCLI 0) [''x'', ''y''] (on_close 0 example_connected))) 1)
       = [''x\<newline>'', ''y\<newline>'']"
    by simp
  from h r match_example_path 1 2 3 show ?thesis by (intro conjI)
qed

text \<open>
  The claim as stated fails: after the connection of the example session has closed, a
  user message is sent, and a second connection on the session's path arrives; it is
  attached as the session's transport and the message is written to it.
\<close>

theorem closed_transport_reattached:
  "cliSocket (objects (run [(4000, WsClose 0)] example_connected) 0) = None
   \<and> cliSocket (objects (run [(4000, WsClose 0),
                              (5000, SendUserMessage ''ab-1'' (JStr ''hello'') None),
                              (6000, Connection ''/ws/cli/ab-1'')] example_connected) 0)
       = Some 1
   \<and> written (sockets (run [(4000, WsClose 0),
                            (5000, SendUserMessage ''ab-1'' (JStr ''hello'') None),
                            (6000, Connection ''/ws/cli/ab-1'')] example_connected) 1)
       = [JSON_stringify (user_message (JStr ''hello'') []) @ ''\<newline>'']"
proof -
  have h: "handlers (sockets example_connected 0) = Some (''ab-1'', 0)"
    and r: "map_of (sessions example_connected) ''ab-1'' = Some 0"
    by (simp_all add: example_connected_fields)
  let ?f = "JSON_stringify (user_message (JStr ''hello'') [])"
  let ?b1 = "on_close 0 example_connected"
  let ?b1' = "upd_info 0 (\<lambda>i. i\<lparr>lastUsedAt := 5000\<rparr>)
                (upd_info 0 (\<lambda>i. i\<lparr>state := Busy\<rparr>) ?b1)"
  have c: "cliSocket (objects ?b1 0) = None" using h by simp
  have s: "sendUserMessage ''ab-1'' (JStr ''hello'') None 5000 ?b1 = Inr (sendToCLI 0 ?f ?b1')"
    by (simp add: sendUserMessage_def Let_def example_connected_fields)
  have nw: "not_writable 0 ?b1'" using c by (simp add: not_writable_def)
  have q: "sendToCLI 0 ?f ?b1'
           = upd_object 0 (\<lambda>m. m\<lparr>pendingMessages := pendingMessages m @ [?f]\<rparr>) ?b1'"
    using nw by (rule sendToCLI_queues)
  let ?b2 = "upd_object 0 (\<lambda>m. m\<lparr>pendingMessages := pendingMessages m @ [?f]\<rparr>) ?b1'"
  let ?b2' = "?b2\<lparr>sockets := (sockets ?b2)(1 := new_socket), next_socket := Suc 1\<rparr>"
  have n2: "next_socket ?b2 = 1" by (simp add: example_connected_fields)
  have t: "attach_target ''/ws/cli/ab-1'' ?b2' = Some (''ab-1'', 0)"
    by (simp add: attach_target_def match_example_path example_connected_fields)
  have oc: "on_connection ''/ws/cli/ab-1'' ?b2 = handleConnection 1 ''/ws/cli/ab-1'' ?b2'"
    unfolding on_connection_def Let_def n2 by simp
  note a = handleConnection_attached[OF t, of 1 0 1]
  have 2: "cliSocket (objects (on_connection ''/ws/cli/ab-1'' ?b2) 0) = Some 1"
    and 3: "written (sockets (on_connection ''/ws/cli/ab-1'' ?b2) 1) = [?f @ ''\<newline>'']"
    unfolding oc using a by (simp_all add: new_socket_def example_connected_fields)
  have run3: "run [(4000, WsClose 0), (5000, SendUserMessage ''ab-1'' (JStr ''hello'') None),
                   (6000, Connection ''/ws/cli/ab-1'')] example_connected
              = on_connection ''/ws/cli/ab-1'' ?b2"
    unfolding run_Cons run_Nil step.simps s q by simp
  show ?thesis
    unfolding run3 using c 2 3 by simp
qed

end
